theory Spec2Isabelle
  imports Main "HOL-Library.Word" "HOL-Library.Char_ord" "HOL-Library.List_Lexorder"
    "HOL-Library.Multiset"
begin

section \<open>Go values used by controller.go\<close>

text \<open>
  Go's \<open>int\<close> is modelled by \<open>int\<close>: controller.go does no arithmetic on it, only
  the conversions \<open>int32(x)\<close> (truncation to the low 32 bits, read as two's complement)
  and \<open>int(p)\<close> for an \<open>int32\<close> value \<open>p\<close> (sign extension). An \<open>error\<close> is its
  message; \<open>nil\<close> is \<open>None\<close>. A run-time panic (a failed type assertion without the
  comma-ok form, a nil pointer dereference) is the outcome \<open>Panics\<close>.
\<close>

type_synonym int32 = "32 word"
type_synonym error = string

datatype 'a outcome = Panics | Returns 'a

definition int32_of_int :: "int \<Rightarrow> int32" where
  "int32_of_int i = word_of_int i"

definition int_of_int32 :: "int32 \<Rightarrow> int" where
  "int_of_int32 p = sint p"

definition notNil :: "error option \<Rightarrow> bool" where
  "notNil err = (err \<noteq> None)"

fun digits :: "nat \<Rightarrow> string" where
  "digits n =
     (if n < 10 then [''0123456789'' ! n]
      else digits (n div 10) @ [''0123456789'' ! (n mod 10)])"

text \<open>The verb \<open>%v\<close> of \<open>fmt.Sprintf\<close> on an \<open>int\<close>: signed decimal.\<close>

definition show_int :: "int \<Rightarrow> string" where
  "show_int i = (if i < 0 then CHR ''-'' # digits (nat (- i)) else digits (nat i))"

text \<open>\<open>fmt.Sprintf("%v:%v", epAddress.IP, targetPort)\<close> (controller.go, line 279).\<close>

definition Sprintf_ip_port :: "string \<Rightarrow> int \<Rightarrow> string" where
  "Sprintf_ip_port ip targetPort = ip @ '':'' @ show_int targetPort"

section \<open>The API objects read by the controller\<close>

datatype intstr_Type = intstr_Int | intstr_String

record IntOrString =
  Type :: intstr_Type
  IntVal :: int32
  StrVal :: string

record ServicePort =
  Protocol :: string
  Port :: int32
  TargetPort :: IntOrString

record v1_Service =
  svc_Name :: string
  svc_Namespace :: string
  svc_Annotations :: "(string \<times> string) list"
  svc_Spec_Type :: string
  svc_Spec_Ports :: "ServicePort list"

record EndpointAddress =
  IP :: string

record EndpointPort =
  EndpointPort_Name :: string
  EndpointPort_Port :: int32

record EndpointSubset =
  Addresses :: "EndpointAddress list"
  Ports :: "EndpointPort list"

record v1_Endpoints =
  Endpoints_Name :: string
  Endpoints_Namespace :: string
  Subsets :: "EndpointSubset list"

record v1_Node =
  node_Unschedulable :: bool
  node_Addresses :: "(string \<times> string) list"

text \<open>
  A value of type \<open>interface{}\<close>: what a store holds and what a queue hands to a sync
  function. \<open>OtherObj\<close> is the nil interface or a value of any other dynamic type.
\<close>

datatype obj =
  ServiceObj v1_Service
| EndpointsObj v1_Endpoints
| NodeObj v1_Node
| StringObj string
| OtherObj

text \<open>
  \<open>cache.Store\<close> is an interface; the controller calls \<open>GetByKey\<close>, which returns
  \<open>(item, exists, err)\<close>, and \<open>List\<close>.
\<close>

record Store =
  GetByKey :: "string \<Rightarrow> obj \<times> bool \<times> error option"
  List :: "obj list"

text \<open>
  Modelled from the spec: the type \<open>TaskQueue\<close> is declared outside controller.go.
  Section 4.2 of the spec: \<open>Enqueue(key)\<close> is idempotent; if the key is already queued
  or currently being processed, the call is a no-op. \<open>IsShuttingDown()\<close> reports the
  shutdown signal. The queue is the keys that wait, in order, and the keys whose sync
  is in progress.
\<close>

record TaskQueue =
  shuttingDown :: bool
  queued :: "string list"
  processing :: "string list"

definition IsShuttingDown :: "TaskQueue \<Rightarrow> bool" where
  "IsShuttingDown q = shuttingDown q"

definition Enqueue :: "string \<Rightarrow> TaskQueue \<Rightarrow> TaskQueue" where
  "Enqueue key q =
     (if key \<in> set (queued q) \<or> key \<in> set (processing q) then q
      else q\<lparr>queued := queued q @ [key]\<rparr>)"

text \<open>
  The struct \<open>Service\<close> of the controller (its declaration is outside controller.go):
  the fields that \<open>getService\<close> assigns. A field that is not assigned keeps Go's zero
  value.
\<close>

record Service =
  Name :: string
  Ep :: "string list"
  BackendPort :: int
  Host :: string
  Algorithm :: string
  FrontendPort :: int

record NodeAddress =
  addrs_Hostname :: string
  addrs_ExternalIP :: string
  addrs_InternalIP :: string

record nginx_Node =
  Node_Name :: string
  Node_Hostname :: string
  Node_ExternalIP :: string
  Node_InternalIP :: string
  Node_Active :: bool

record ServiceSpec =
  Key :: string
  Service :: v1_Service

datatype cfgType = StreamCfg | LocalCfg

text \<open>
  The functions of utils.go and of the package \<open>annotations\<close> that controller.go calls.
  Their code is not part of the sources at hand, so every definition below takes them as
  the parameter \<open>h\<close>; a Go result \<open>(v, err)\<close> is a pair, a result \<open>(val, ok)\<close> is an
  option.
\<close>

record helpers =
  ValidateServiceObject :: "obj \<Rightarrow> bool"
  ValidateServiceObjectType :: "obj \<Rightarrow> error option"
  GetServiceName :: "obj \<Rightarrow> string \<times> error option"
  GetServiceNamespace :: "obj \<Rightarrow> string \<times> error option"
  GetServicePortTargetPortInt :: "ServicePort \<Rightarrow> int \<times> error option"
  GetServiceNameForLBRule :: "string \<Rightarrow> int \<Rightarrow> string"
  GetHost :: "v1_Service \<Rightarrow> string option"
  GetAlgorithm :: "v1_Service \<Rightarrow> string option"
  ValidateNodeObjectType :: "obj \<Rightarrow> error option"
  GetNodeAddress :: "obj \<Rightarrow> NodeAddress \<times> error option"
  IsNodeScheduleable :: "obj \<Rightarrow> bool"

text \<open>
  The operations of \<open>nginx.Configurator\<close> that the sync functions call, over a state
  \<open>'c\<close> of the configurator; the two node operations return the affected service keys.
\<close>

record 'c Configurator =
  DeleteNode :: "string \<Rightarrow> 'c \<Rightarrow> string list \<times> 'c"
  AddOrUpdateNode :: "nginx_Node \<Rightarrow> 'c \<Rightarrow> string list \<times> 'c"
  AddOrUpdateService :: "string \<Rightarrow> ServiceSpec \<Rightarrow> 'c \<Rightarrow> 'c"
  DeleteConfiguration :: "string \<Rightarrow> cfgType \<Rightarrow> 'c \<Rightarrow> 'c"

record 'c lbExController =
  endpointStore :: Store
  endpointsQueue :: TaskQueue
  servicesStore :: Store
  servicesQueue :: TaskQueue
  nodesStore :: Store
  nodesQueue :: TaskQueue
  lbex_service :: string
  cfgtor :: 'c

text \<open>
  \<open>nginx.SupportedAlgorithms\<close> and \<open>nginx.DefaultAlgorithm\<close>, with the values the
  earlier revision of the controller declares for them (part_000, lines 37 and 38).
\<close>

definition SupportedAlgorithms :: "string list" where
  "SupportedAlgorithms = [''roundrobin'', ''leastconn'']"

definition DefaultAlgorithm :: string where
  "DefaultAlgorithm = ''roundrobin''"

section \<open>Ordering of the output: sort.Sort(serviceByName(...))\<close>

text \<open>
  Modelled from the spec: the type \<open>serviceByName\<close> is declared outside controller.go;
  section 4.4 of the spec has both output lists sorted by rule name, so its \<open>Less\<close>
  compares the field \<open>Name\<close> (Go compares strings bytewise, shorter prefix first).
\<close>

definition serviceByName_Less :: "Service \<Rightarrow> Service \<Rightarrow> bool" where
  "serviceByName_Less a b = (Name a < Name b)"

text \<open>
  \<open>sort.Sort\<close> of Go's library, as an insertion sort: each element moves left while
  \<open>Less\<close> puts it before its left neighbour. \<open>insertLeft\<close> works on the reversed
  prefix (the left neighbour first). The library promises an ordered permutation and
  no more: it is not stable, so among records of equal name the real run may return
  another order than this definition. The properties below use the order by \<open>Less\<close>
  and the elements of the result only.
\<close>

fun insertLeft :: "('a \<Rightarrow> 'a \<Rightarrow> bool) \<Rightarrow> 'a \<Rightarrow> 'a list \<Rightarrow> 'a list" where
  "insertLeft lt x [] = [x]"
| "insertLeft lt x (p # ps) =
     (if lt x p then p # insertLeft lt x ps else x # p # ps)"

definition sort_Sort :: "('a \<Rightarrow> 'a \<Rightarrow> bool) \<Rightarrow> 'a list \<Rightarrow> 'a list" where
  "sort_Sort lt xs = rev (foldl (\<lambda>sorted_prefix x. insertLeft lt x sorted_prefix) [] xs)"

section \<open>Resolving a service: controller.go, lines 233 to 380\<close>

text \<open>
  \<open>getServiceEndpoints\<close>: the first object of the endpoint store's listing with the
  service's name and namespace. \<open>*ep.(*v1.Endpoints)\<close> panics on an object that is not
  an Endpoints object. \<open>Inl\<close> is the error of line 241.
\<close>

fun getServiceEndpoints_loop :: "v1_Service \<Rightarrow> obj list \<Rightarrow> (error + v1_Endpoints) outcome" where
  "getServiceEndpoints_loop service [] =
     Returns (Inl (''could not find endpoints for service: '' @ svc_Name service))"
| "getServiceEndpoints_loop service (ep # rest) =
     (case ep of
        EndpointsObj endpoints \<Rightarrow>
          if svc_Name service = Endpoints_Name endpoints
             \<and> svc_Namespace service = Endpoints_Namespace endpoints
          then Returns (Inr endpoints)
          else getServiceEndpoints_loop service rest
      | _ \<Rightarrow> Panics)"

definition getServiceEndpoints :: "'c lbExController \<Rightarrow> v1_Service \<Rightarrow> (error + v1_Endpoints) outcome" where
  "getServiceEndpoints lbex service = getServiceEndpoints_loop service (List (endpointStore lbex))"

text \<open>
  Lines 259 to 273: the value of \<open>targetPort\<close> after the switch, for one port entry of
  a subset. The \<open>continue\<close> of line 264 skips the entry as \<open>targetPort == 0\<close> does in
  line 274, so it is the value 0 here.
\<close>

definition targetPort :: "helpers \<Rightarrow> ServicePort \<Rightarrow> EndpointPort \<Rightarrow> int" where
  "targetPort h servicePort epPort =
     (case Type (TargetPort servicePort) of
        intstr_Int \<Rightarrow>
          (case GetServicePortTargetPortInt h servicePort of
             (servicePortInt, err) \<Rightarrow>
               if notNil err then 0
               else if EndpointPort_Port epPort = int32_of_int servicePortInt then servicePortInt
               else 0)
      | intstr_String \<Rightarrow>
          if EndpointPort_Name epPort = StrVal (TargetPort servicePort)
          then int_of_int32 (EndpointPort_Port epPort)
          else 0)"

text \<open>
  The same switch in the earlier revision of the controller (part_000, lines 168 to
  178); \<open>getTargetPort\<close> is declared outside that file and is a parameter.
\<close>

definition targetPort_000 :: "(ServicePort \<Rightarrow> int) \<Rightarrow> ServicePort \<Rightarrow> EndpointPort \<Rightarrow> int" where
  "targetPort_000 getTargetPort servicePort epPort =
     (case Type (TargetPort servicePort) of
        intstr_Int \<Rightarrow>
          if EndpointPort_Port epPort = int32_of_int (getTargetPort servicePort)
          then int_of_int32 (EndpointPort_Port epPort)
          else 0
      | intstr_String \<Rightarrow>
          if EndpointPort_Name epPort = StrVal (TargetPort servicePort)
          then int_of_int32 (EndpointPort_Port epPort)
          else 0)"

text \<open>Lines 257 to 281: what one port entry of a subset appends to \<open>endpoints\<close>.\<close>

definition epPortEndpoints :: "helpers \<Rightarrow> ServicePort \<Rightarrow> EndpointSubset \<Rightarrow> EndpointPort \<Rightarrow> string list" where
  "epPortEndpoints h servicePort subsets epPort =
     (if targetPort h servicePort epPort = 0 then []
      else map (\<lambda>epAddress. Sprintf_ip_port (IP epAddress) (targetPort h servicePort epPort))
             (Addresses subsets))"

definition subsetEndpoints :: "helpers \<Rightarrow> ServicePort \<Rightarrow> EndpointSubset \<Rightarrow> string list" where
  "subsetEndpoints h servicePort subsets =
     concat (map (epPortEndpoints h servicePort subsets) (Ports subsets))"

definition getEndpoints :: "helpers \<Rightarrow> 'c lbExController \<Rightarrow> v1_Service \<Rightarrow> ServicePort \<Rightarrow> string list outcome" where
  "getEndpoints h lbex service servicePort =
     (case getServiceEndpoints lbex service of
        Panics \<Rightarrow> Panics
      | Returns (Inl err) \<Rightarrow> Returns []
      | Returns (Inr svcEndpoints) \<Rightarrow>
          Returns (concat (map (subsetEndpoints h servicePort) (Subsets svcEndpoints))))"

text \<open>Lines 355 to 361: the loop over the supported algorithms, with its \<open>break\<close>.\<close>

fun algorithmLoop :: "string \<Rightarrow> string list \<Rightarrow> Service \<Rightarrow> Service" where
  "algorithmLoop val [] newSvc = newSvc"
| "algorithmLoop val (current # rest) newSvc =
     (if val = current then newSvc\<lparr>Algorithm := val\<rparr> else algorithmLoop val rest newSvc)"

text \<open>Lines 344 to 365: the record built for a port with the endpoints \<open>ep\<close>.\<close>

definition newService :: "helpers \<Rightarrow> v1_Service \<Rightarrow> string \<Rightarrow> ServicePort \<Rightarrow> string list \<Rightarrow> Service" where
  "newService h service serviceName servicePort ep =
     (let backendPort = fst (GetServicePortTargetPortInt h servicePort);
          newSvc = \<lparr>Name = GetServiceNameForLBRule h serviceName (int_of_int32 (Port servicePort)),
                    Ep = ep, BackendPort = backendPort, Host = [], Algorithm = [],
                    FrontendPort = 0\<rparr>;
          newSvc = (case GetHost h service of Some val \<Rightarrow> newSvc\<lparr>Host := val\<rparr> | None \<Rightarrow> newSvc);
          newSvc = (case GetAlgorithm h service of
                      Some val \<Rightarrow> algorithmLoop val SupportedAlgorithms newSvc
                    | None \<Rightarrow> newSvc\<lparr>Algorithm := DefaultAlgorithm\<rparr>)
      in newSvc\<lparr>FrontendPort := int_of_int32 (Port servicePort)\<rparr>)"

text \<open>
  Lines 337 to 374: the loop over the service's ports; the result is
  \<open>(tcpServices, udpServices)\<close> before sorting.
\<close>

fun servicePortLoop :: "helpers \<Rightarrow> 'c lbExController \<Rightarrow> v1_Service \<Rightarrow> string \<Rightarrow> ServicePort list
    \<Rightarrow> (Service list \<times> Service list) outcome" where
  "servicePortLoop h lbex service serviceName [] = Returns ([], [])"
| "servicePortLoop h lbex service serviceName (servicePort # rest) =
     (case getEndpoints h lbex service servicePort of
        Panics \<Rightarrow> Panics
      | Returns ep \<Rightarrow>
          (case servicePortLoop h lbex service serviceName rest of
             Panics \<Rightarrow> Panics
           | Returns (tcpServices, udpServices) \<Rightarrow>
               if length ep = 0 then Returns (tcpServices, udpServices)
               else if Protocol servicePort = ''UDP''
               then Returns (tcpServices, newService h service serviceName servicePort ep # udpServices)
               else Returns (newService h service serviceName servicePort ep # tcpServices, udpServices)))"

definition getService :: "helpers \<Rightarrow> 'c lbExController \<Rightarrow> string \<Rightarrow> (Service list \<times> Service list) outcome" where
  "getService h lbex key =
     (case GetByKey (servicesStore lbex) key of
        (obj, exists, err) \<Rightarrow>
          if notNil err \<or> \<not> exists then Returns ([], [])
          else if \<not> ValidateServiceObject h obj then Returns ([], [])
          else if lbex_service lbex \<noteq> [] \<and> lbex_service lbex \<noteq> fst (GetServiceName h obj) then Returns ([], [])
          else (case obj of
                  ServiceObj svc \<Rightarrow>
                    (case servicePortLoop h lbex svc (fst (GetServiceName h obj)) (svc_Spec_Ports svc) of
                       Panics \<Rightarrow> Panics
                     | Returns (tcpServices, udpServices) \<Rightarrow>
                         Returns (sort_Sort serviceByName_Less tcpServices,
                                  sort_Sort serviceByName_Less udpServices))
                | _ \<Rightarrow> Panics))"

text \<open>Lines 289 to 307 of \<open>getServices\<close>: the loop over the listing of the service store.\<close>

fun getServices_loop :: "helpers \<Rightarrow> 'c lbExController \<Rightarrow> obj list \<Rightarrow> (Service list \<times> Service list) outcome" where
  "getServices_loop h lbex [] = Returns ([], [])"
| "getServices_loop h lbex (obj # rest) =
     (if \<not> ValidateServiceObject h obj then getServices_loop h lbex rest
      else if notNil (snd (GetServiceNamespace h obj)) then getServices_loop h lbex rest
      else if notNil (snd (GetServiceName h obj)) then getServices_loop h lbex rest
      else (case getService h lbex
                   (fst (GetServiceNamespace h obj) @ ''/'' @ fst (GetServiceName h obj)) of
              Panics \<Rightarrow> Panics
            | Returns (svcTCPServices, svcUDPServices) \<Rightarrow>
                (case getServices_loop h lbex rest of
                   Panics \<Rightarrow> Panics
                 | Returns (tcpServices, udpServices) \<Rightarrow>
                     Returns (svcTCPServices @ tcpServices, svcUDPServices @ udpServices))))"

definition getServices :: "helpers \<Rightarrow> 'c lbExController \<Rightarrow> (Service list \<times> Service list) outcome" where
  "getServices h lbex =
     (case getServices_loop h lbex (List (servicesStore lbex)) of
        Panics \<Rightarrow> Panics
      | Returns (tcpServices, udpServices) \<Rightarrow>
          Returns (sort_Sort serviceByName_Less tcpServices,
                   sort_Sort serviceByName_Less udpServices))"

section \<open>The sync functions: controller.go, lines 116 to 231\<close>

text \<open>
  Lines 146 to 152 of \<open>syncNodes\<close>: the node handed to the configurator, and lines 157
  to 159: every affected service goes to \<open>Enqueue\<close>.
\<close>

definition enqueueAll :: "string list \<Rightarrow> TaskQueue \<Rightarrow> TaskQueue" where
  "enqueueAll affectedServices q = foldl (\<lambda>q svc. Enqueue svc q) q affectedServices"

definition nodeOf :: "helpers \<Rightarrow> string \<Rightarrow> obj \<Rightarrow> nginx_Node" where
  "nodeOf h key storeObj =
     \<lparr>Node_Name = key,
      Node_Hostname = addrs_Hostname (fst (GetNodeAddress h storeObj)),
      Node_ExternalIP = addrs_ExternalIP (fst (GetNodeAddress h storeObj)),
      Node_InternalIP = addrs_InternalIP (fst (GetNodeAddress h storeObj)),
      Node_Active = IsNodeScheduleable h storeObj\<rparr>"

text \<open>
  A sync function returns its \<open>error\<close> and the controller as it has left it: the state
  of the configurator and the service queue are what it can change.
\<close>

definition syncNodes :: "helpers \<Rightarrow> 'c Configurator \<Rightarrow> 'c lbExController \<Rightarrow> obj
    \<Rightarrow> error option \<times> 'c lbExController" where
  "syncNodes h cf lbex obj =
     (if IsShuttingDown (nodesQueue lbex) then (None, lbex)
      else case obj of
        StringObj key \<Rightarrow>
          (case GetByKey (nodesStore lbex) key of
             (storeObj, exists, err) \<Rightarrow>
               if notNil err then (err, lbex)
               else if \<not> exists then
                 (case DeleteNode cf key (cfgtor lbex) of
                    (affectedServices, c) \<Rightarrow>
                      (None, lbex\<lparr>servicesQueue := enqueueAll affectedServices (servicesQueue lbex),
                                   cfgtor := c\<rparr>))
               else if notNil (ValidateNodeObjectType h storeObj) then (None, lbex)
               else if notNil (snd (GetNodeAddress h storeObj)) then (None, lbex)
               else
                 (case AddOrUpdateNode cf (nodeOf h key storeObj) (cfgtor lbex) of
                    (affectedServices, c) \<Rightarrow>
                      (None, lbex\<lparr>servicesQueue := enqueueAll affectedServices (servicesQueue lbex),
                                   cfgtor := c\<rparr>)))
      | _ \<Rightarrow> (Some ''type assertion faild for key string'', lbex))"

text \<open>\<open>strings.Replace(key, "/", "-", -1)\<close> of line 173.\<close>

definition filename_of :: "string \<Rightarrow> string" where
  "filename_of key = map (\<lambda>c. if c = CHR ''/'' then CHR ''-'' else c) key"

definition syncServices :: "helpers \<Rightarrow> 'c Configurator \<Rightarrow> 'c lbExController \<Rightarrow> obj
    \<Rightarrow> (error option \<times> 'c lbExController) outcome" where
  "syncServices h cf lbex obj =
     (if IsShuttingDown (servicesQueue lbex) then Returns (None, lbex)
      else case obj of
        StringObj key \<Rightarrow>
          (case GetByKey (servicesStore lbex) key of
             (storeObj, exists, err) \<Rightarrow>
               if notNil err then Returns (err, lbex)
               else if \<not> exists then
                 Returns (None,
                   lbex\<lparr>cfgtor := DeleteConfiguration cf (filename_of key) StreamCfg (cfgtor lbex)\<rparr>)
               else if notNil (ValidateServiceObjectType h storeObj) then Returns (None, lbex)
               else
                 (case getService h lbex key of
                    Panics \<Rightarrow> Panics
                  | Returns (tcpSvc, udpSvc) \<Rightarrow>
                      if length udpSvc = 0 \<and> length tcpSvc = 0 then Returns (None, lbex)
                      else
                        (case storeObj of
                           ServiceObj svc \<Rightarrow>
                             Returns (None,
                               lbex\<lparr>cfgtor := AddOrUpdateService cf (filename_of key)
                                                  \<lparr>Key = key, Service = svc\<rparr> (cfgtor lbex)\<rparr>)
                         | _ \<Rightarrow> Panics)))
      | _ \<Rightarrow> Returns (Some ''syncServices: type assertion faild for key string'', lbex))"

definition syncEndpoints :: "helpers \<Rightarrow> 'c lbExController \<Rightarrow> obj
    \<Rightarrow> (error option \<times> 'c lbExController) outcome" where
  "syncEndpoints h lbex obj =
     (if IsShuttingDown (endpointsQueue lbex) then Returns (None, lbex)
      else case obj of
        StringObj key \<Rightarrow>
          (case GetByKey (endpointStore lbex) key of
             (storeObj, exists, err) \<Rightarrow>
               if notNil err then Returns (err, lbex)
               else if \<not> exists then Returns (None, lbex)
               else
                 (case getService h lbex key of
                    Panics \<Rightarrow> Panics
                  | Returns (tcpSvc, udpSvc) \<Rightarrow> Returns (None, lbex)))
      | _ \<Rightarrow> Returns (Some ''syncEndpoints: key string type assertion failed'', lbex))"

section \<open>A cluster to run the controller on\<close>

definition lookupOr :: "string option \<Rightarrow> string" where
  "lookupOr v = (case v of Some s \<Rightarrow> s | None \<Rightarrow> [])"

text \<open>
  Modelled from the spec: an instance of the helper functions, for running the
  definitions above on concrete objects. Sections 4.4 and 4.5 of the spec: a candidate
  is a Service object that is not of the type LoadBalancer and carries the class
  annotation; host and algorithm are the values of their annotations when present; the
  rule name combines the service name and the frontend port; the numeric target port
  is the integer value of the port's target. The annotation keys are this instance's.
\<close>

definition utils :: helpers where
  "utils =
     \<lparr>ValidateServiceObject =
        (\<lambda>obj. case obj of
                 ServiceObj s \<Rightarrow>
                   svc_Spec_Type s \<noteq> ''LoadBalancer''
                   \<and> map_of (svc_Annotations s) ''kubernetes.io/loadbalancer-class''
                       = Some ''loadbalancer-lbex''
               | _ \<Rightarrow> False),
      ValidateServiceObjectType =
        (\<lambda>obj. case obj of ServiceObj s \<Rightarrow> None | _ \<Rightarrow> Some ''unexpected type''),
      GetServiceName =
        (\<lambda>obj. case obj of ServiceObj s \<Rightarrow> (svc_Name s, None) | _ \<Rightarrow> ([], Some ''unexpected type'')),
      GetServiceNamespace =
        (\<lambda>obj. case obj of ServiceObj s \<Rightarrow> (svc_Namespace s, None)
               | _ \<Rightarrow> ([], Some ''unexpected type'')),
      GetServicePortTargetPortInt =
        (\<lambda>servicePort. (int_of_int32 (IntVal (TargetPort servicePort)), None)),
      GetServiceNameForLBRule = (\<lambda>serviceName servicePort. serviceName @ ''-'' @ show_int servicePort),
      GetHost = (\<lambda>s. map_of (svc_Annotations s) ''loadbalancer.lbex/host''),
      GetAlgorithm = (\<lambda>s. map_of (svc_Annotations s) ''loadbalancer.lbex/algorithm''),
      ValidateNodeObjectType =
        (\<lambda>obj. case obj of NodeObj n \<Rightarrow> None | _ \<Rightarrow> Some ''unexpected type''),
      GetNodeAddress =
        (\<lambda>obj. case obj of
                 NodeObj n \<Rightarrow>
                   (\<lparr>addrs_Hostname = lookupOr (map_of (node_Addresses n) ''Hostname''),
                     addrs_ExternalIP = lookupOr (map_of (node_Addresses n) ''ExternalIP''),
                     addrs_InternalIP = lookupOr (map_of (node_Addresses n) ''InternalIP'')\<rparr>,
                    None)
               | _ \<Rightarrow> (\<lparr>addrs_Hostname = [], addrs_ExternalIP = [], addrs_InternalIP = []\<rparr>,
                       Some ''unexpected type'')),
      IsNodeScheduleable =
        (\<lambda>obj. case obj of NodeObj n \<Rightarrow> \<not> node_Unschedulable n | _ \<Rightarrow> False)\<rparr>"

text \<open>
  A store with the given contents, in listing order: \<open>GetByKey\<close> never fails.
  \<open>failingStore\<close> is a store whose lookups all fail.
\<close>

definition storeOf :: "(string \<times> obj) list \<Rightarrow> Store" where
  "storeOf kvs =
     \<lparr>GetByKey = (\<lambda>key. case map_of kvs key of
                          Some item \<Rightarrow> (item, True, None)
                        | None \<Rightarrow> (OtherObj, False, None)),
      List = map snd kvs\<rparr>"

definition failingStore :: "error \<Rightarrow> Store" where
  "failingStore e = \<lparr>GetByKey = (\<lambda>key. (OtherObj, False, Some e)), List = []\<rparr>"

definition idleQueue :: TaskQueue where
  "idleQueue = \<lparr>shuttingDown = False, queued = [], processing = []\<rparr>"

text \<open>
  Services of the namespace \<open>ns\<close> with the class annotation and further annotations,
  their Endpoints objects, and the controller over three stores.
\<close>

definition tcpPort :: "int32 \<Rightarrow> IntOrString \<Rightarrow> ServicePort" where
  "tcpPort p target = \<lparr>Protocol = ''TCP'', Port = p, TargetPort = target\<rparr>"

definition numbered :: "int32 \<Rightarrow> IntOrString" where
  "numbered p = \<lparr>Type = intstr_Int, IntVal = p, StrVal = []\<rparr>"

definition named :: "string \<Rightarrow> IntOrString" where
  "named n = \<lparr>Type = intstr_String, IntVal = 0, StrVal = n\<rparr>"

definition lbService :: "string \<Rightarrow> (string \<times> string) list \<Rightarrow> ServicePort list \<Rightarrow> v1_Service" where
  "lbService name annotations ports =
     \<lparr>svc_Name = name, svc_Namespace = ''ns'',
      svc_Annotations = (''kubernetes.io/loadbalancer-class'', ''loadbalancer-lbex'') # annotations,
      svc_Spec_Type = ''ClusterIP'', svc_Spec_Ports = ports\<rparr>"

definition endpointsOf :: "string \<Rightarrow> EndpointSubset list \<Rightarrow> v1_Endpoints" where
  "endpointsOf name subsets =
     \<lparr>Endpoints_Name = name, Endpoints_Namespace = ''ns'', Subsets = subsets\<rparr>"

definition subset :: "string list \<Rightarrow> (string \<times> int32) list \<Rightarrow> EndpointSubset" where
  "subset ips ports =
     \<lparr>Addresses = map (\<lambda>ip. \<lparr>IP = ip\<rparr>) ips,
      Ports = map (\<lambda>(n, p). \<lparr>EndpointPort_Name = n, EndpointPort_Port = p\<rparr>) ports\<rparr>"

definition cluster :: "Store \<Rightarrow> Store \<Rightarrow> Store \<Rightarrow> 'c \<Rightarrow> 'c lbExController" where
  "cluster services endpoints nodes c =
     \<lparr>endpointStore = endpoints, endpointsQueue = idleQueue,
      servicesStore = services, servicesQueue = idleQueue,
      nodesStore = nodes, nodesQueue = idleQueue,
      lbex_service = [], cfgtor = c\<rparr>"

definition webCluster :: "(string \<times> string) list \<Rightarrow> ServicePort list \<Rightarrow> EndpointSubset list
    \<Rightarrow> unit lbExController" where
  "webCluster annotations ports subsets =
     cluster (storeOf [(''ns/web'', ServiceObj (lbService ''web'' annotations ports))])
             (storeOf [(''ns/web'', EndpointsObj (endpointsOf ''web'' subsets))])
             (storeOf []) ()"

text \<open>
  Two services, \<open>ns/web\<close> listed before \<open>ns/api\<close>, each with one TCP port 80 and one
  address; the endpoint store lists its objects in the order given.
\<close>

definition twoServices :: "(string \<times> obj) list \<Rightarrow> unit lbExController" where
  "twoServices endpoints =
     cluster (storeOf [(''ns/web'', ServiceObj (lbService ''web'' [] [tcpPort 80 (numbered 8080)])),
                       (''ns/api'', ServiceObj (lbService ''api'' [] [tcpPort 80 (numbered 8080)]))])
             (storeOf endpoints) (storeOf []) ()"

definition webEndpoints :: "string \<times> obj" where
  "webEndpoints = (''ns/web'', EndpointsObj (endpointsOf ''web'' [subset [''10.0.0.1''] [(''http'', 8080)]]))"

definition apiEndpoints :: "string \<times> obj" where
  "apiEndpoints = (''ns/api'', EndpointsObj (endpointsOf ''api'' [subset [''10.0.0.2''] [(''http'', 8080)]]))"

text \<open>
  Modelled from the spec: an instance of the Configurator of section 6, whose state
  lists for every node the keys of the services that reference it; deleting a node
  returns its services and forgets the node.
\<close>

definition nodeServices :: "string \<Rightarrow> (string \<times> string list) list \<Rightarrow> string list" where
  "nodeServices key c = concat (map snd (filter (\<lambda>entry. fst entry = key) c))"

definition nodeConfigurator :: "(string \<times> string list) list Configurator" where
  "nodeConfigurator =
     \<lparr>DeleteNode = (\<lambda>key c. (nodeServices key c, filter (\<lambda>entry. fst entry \<noteq> key) c)),
      AddOrUpdateNode = (\<lambda>node c. (nodeServices (Node_Name node) c, c)),
      AddOrUpdateService = (\<lambda>filename svcSpec c. c),
      DeleteConfiguration = (\<lambda>filename t c. c)\<rparr>"

text \<open>
  A controller whose node store is empty, whose configurator knows \<open>node-1\<close> with the
  services \<open>ns/svc-a\<close> and \<open>ns/svc-c\<close>, and whose service queue is empty but for the
  keys in progress.
\<close>

definition nodeCluster :: "string list \<Rightarrow> (string \<times> string list) list lbExController" where
  "nodeCluster inProgress =
     (cluster (storeOf []) (storeOf []) (storeOf []) [(''node-1'', [''ns/svc-a'', ''ns/svc-c''])])
       \<lparr>servicesQueue := \<lparr>shuttingDown = False, queued = [], processing = inProgress\<rparr>\<rparr>"

text \<open>A controller whose three stores fail every lookup with the error \<open>e\<close>.\<close>

definition failingCluster :: "error \<Rightarrow> (string \<times> string list) list lbExController" where
  "failingCluster e = cluster (failingStore e) (failingStore e) (failingStore e) []"

text \<open>
  The key under which the store holds an Endpoints object is made of its namespace and
  its name (the spec, section 6: objects are keyed by \<open>namespace/name\<close>), so the
  objects of one store differ in this pair.
\<close>

definition endpointsKey :: "obj \<Rightarrow> string \<times> string" where
  "endpointsKey item =
     (case item of
        EndpointsObj endpoints \<Rightarrow> (Endpoints_Namespace endpoints, Endpoints_Name endpoints)
      | _ \<Rightarrow> ([], []))"

section \<open>Properties of the resolver\<close>

subsection \<open>The sort keeps the records and orders them by name\<close>

lemma set_insertLeft: "set (insertLeft lt x ps) = insert x (set ps)"
  by (induction ps) auto

lemma set_foldl_insertLeft:
  "set (foldl (\<lambda>sorted_prefix x. insertLeft lt x sorted_prefix) acc xs) = set acc \<union> set xs"
  by (induction xs arbitrary: acc) (auto simp: set_insertLeft)

lemma set_sort_Sort: "set (sort_Sort lt xs) = set xs"
  by (simp add: sort_Sort_def set_foldl_insertLeft)

lemma descending_insertLeft:
  "sorted (rev (map Name ps)) \<Longrightarrow> sorted (rev (map Name (insertLeft serviceByName_Less x ps)))"
  by (induction ps) (auto simp: sorted_append set_insertLeft serviceByName_Less_def)

lemma descending_foldl:
  "sorted (rev (map Name acc)) \<Longrightarrow>
   sorted (rev (map Name (foldl (\<lambda>sorted_prefix x. insertLeft serviceByName_Less x sorted_prefix) acc xs)))"
  by (induction xs arbitrary: acc) (auto simp: descending_insertLeft)

lemma sorted_sort_Sort: "sorted (map Name (sort_Sort serviceByName_Less xs))"
  using descending_foldl [of "[]" xs] by (simp add: sort_Sort_def rev_map)

subsection \<open>The records that \<open>getService\<close> returns\<close>

lemma Ep_algorithmLoop: "Ep (algorithmLoop val cs newSvc) = Ep newSvc"
  by (induction cs) auto

lemma Algorithm_algorithmLoop:
  "Algorithm (algorithmLoop val cs newSvc) = (if val \<in> set cs then val else Algorithm newSvc)"
  by (induction cs) auto

lemma Ep_newService: "Ep (newService h service serviceName servicePort ep) = ep"
  by (simp add: newService_def Let_def Ep_algorithmLoop split: option.split)

lemma Algorithm_newService:
  "Algorithm (newService h service serviceName servicePort ep) =
     (case GetAlgorithm h service of
        Some val \<Rightarrow> if val \<in> set SupportedAlgorithms then val else []
      | None \<Rightarrow> DefaultAlgorithm)"
  by (simp add: newService_def Let_def Algorithm_algorithmLoop split: option.split)

lemma Name_newService:
  "Name (newService h service serviceName servicePort ep) =
     GetServiceNameForLBRule h serviceName (int_of_int32 (Port servicePort))"
proof -
  have "Name (algorithmLoop val cs newSvc) = Name newSvc" for val cs and newSvc :: Service
    by (induction cs) auto
  then show ?thesis
    by (simp add: newService_def Let_def split: option.split)
qed

lemma servicePortLoop_records:
  "servicePortLoop h lbex service serviceName ports = Returns (tcp, udp) \<Longrightarrow>
   s \<in> set tcp \<union> set udp \<Longrightarrow>
   \<exists>servicePort ep. servicePort \<in> set ports \<and> ep \<noteq> []
      \<and> getEndpoints h lbex service servicePort = Returns ep
      \<and> s = newService h service serviceName servicePort ep"
proof (induction ports arbitrary: tcp udp)
  case Nil
  then show ?case by simp
next
  case (Cons servicePort rest)
  from Cons.prems(1) obtain ep tcp' udp' where
    ep: "getEndpoints h lbex service servicePort = Returns ep" and
    rest: "servicePortLoop h lbex service serviceName rest = Returns (tcp', udp')" and
    out: "(tcp, udp) =
      (if length ep = 0 then (tcp', udp')
       else if Protocol servicePort = ''UDP''
       then (tcp', newService h service serviceName servicePort ep # udp')
       else (newService h service serviceName servicePort ep # tcp', udp'))"
    by (auto split: outcome.splits prod.splits if_splits)
  show ?case
  proof (cases "s \<in> set tcp' \<union> set udp'")
    case True
    from Cons.IH [OF rest True] show ?thesis by auto
  next
    case False
    with out Cons.prems(2) have "ep \<noteq> []" and "s = newService h service serviceName servicePort ep"
      by (auto split: if_splits)
    with ep show ?thesis by auto
  qed
qed

lemma getService_records:
  assumes "getService h lbex key = Returns (tcp, udp)" and "s \<in> set tcp \<union> set udp"
  shows "\<exists>svc servicePort ep.
           GetByKey (servicesStore lbex) key = (ServiceObj svc, True, None)
           \<and> servicePort \<in> set (svc_Spec_Ports svc) \<and> ep \<noteq> []
           \<and> getEndpoints h lbex svc servicePort = Returns ep
           \<and> s = newService h svc (fst (GetServiceName h (ServiceObj svc))) servicePort ep"
proof -
  obtain item exists err where look: "GetByKey (servicesStore lbex) key = (item, exists, err)"
    by (cases "GetByKey (servicesStore lbex) key") auto
  from assms(2) have nonempty: "(tcp, udp) \<noteq> ([], [])" by auto
  from assms(1) look nonempty obtain svc tcp' udp' where
    item: "item = ServiceObj svc" "exists" "err = None" and
    loop: "servicePortLoop h lbex svc (fst (GetServiceName h item)) (svc_Spec_Ports svc) = Returns (tcp', udp')" and
    out: "tcp = sort_Sort serviceByName_Less tcp'" "udp = sort_Sort serviceByName_Less udp'"
    by (auto simp: getService_def notNil_def split: if_splits obj.splits outcome.splits prod.splits)
  from assms(2) out have "s \<in> set tcp' \<union> set udp'"
    by (simp add: set_sort_Sort)
  from servicePortLoop_records [OF loop this] look item show ?thesis
    by auto
qed

text \<open>
  C2: every record in either list returned by \<open>getService\<close> has a non-empty list of
  endpoint addresses: a port whose resolved address list is empty yields no record.
\<close>

theorem getService_endpoints_nonempty:
  "getService h lbex key = Returns (tcp, udp) \<Longrightarrow> s \<in> set tcp \<union> set udp \<Longrightarrow> Ep s \<noteq> []"
  using getService_records [of h lbex key tcp udp s] by (auto simp: Ep_newService)

text \<open>
  C1: the claim is that a service whose algorithm annotation is present with a value
  outside the supported set gets the default algorithm. On the code the loop of lines
  356 to 361 assigns nothing for such a value and the \<open>else\<close> of line 362 is not taken,
  so every record built for the service keeps the empty string as its algorithm, which
  is not the default.
\<close>

theorem getService_unsupported_algorithm:
  assumes "getService h lbex key = Returns (tcp, udp)" and "s \<in> set tcp \<union> set udp"
    and "GetByKey (servicesStore lbex) key = (ServiceObj svc, True, None)"
    and "GetAlgorithm h svc = Some val" and "val \<notin> set SupportedAlgorithms"
  shows "Algorithm s = [] \<and> Algorithm s \<noteq> DefaultAlgorithm"
  using getService_records [OF assms(1,2)] assms(3-5)
  by (auto simp: Algorithm_newService DefaultAlgorithm_def)

text \<open>
  C5: the TCP and the UDP list returned by \<open>getService\<close> and by \<open>getServices\<close> are
  sorted by rule name, whatever the stores hold and in whatever order they list it.
\<close>

theorem outputs_sorted_by_name:
  "(getService h lbex key = Returns (tcp, udp) \<longrightarrow> sorted (map Name tcp) \<and> sorted (map Name udp))
   \<and> (getServices h lbex = Returns (tcpAll, udpAll) \<longrightarrow> sorted (map Name tcpAll) \<and> sorted (map Name udpAll))"
  by (auto simp: getService_def getServices_def sorted_sort_Sort
      split: if_splits obj.splits outcome.splits prod.splits)

subsection \<open>When \<open>getService\<close> returns\<close>

text \<open>
  \<open>getService\<close> panics only on an object of the endpoint store that is not an
  Endpoints object, or on an object that \<open>ValidateServiceObject\<close> accepts although it
  is not a Service. Without these it returns its two lists.
\<close>

lemma getServiceEndpoints_loop_returns:
  "\<forall>item \<in> set items. \<exists>endpoints. item = EndpointsObj endpoints \<Longrightarrow>
   \<exists>r. getServiceEndpoints_loop service items = Returns r"
  by (induction items) auto

lemma getEndpoints_returns:
  "\<forall>item \<in> set (List (endpointStore lbex)). \<exists>endpoints. item = EndpointsObj endpoints \<Longrightarrow>
   \<exists>ep. getEndpoints h lbex service servicePort = Returns ep"
  using getServiceEndpoints_loop_returns [of "List (endpointStore lbex)" service]
  by (auto simp: getEndpoints_def getServiceEndpoints_def split: sum.splits)

lemma servicePortLoop_returns:
  "\<forall>item \<in> set (List (endpointStore lbex)). \<exists>endpoints. item = EndpointsObj endpoints \<Longrightarrow>
   \<exists>tcp udp. servicePortLoop h lbex service serviceName ports = Returns (tcp, udp)"
proof (induction ports)
  case Nil
  then show ?case by simp
next
  case (Cons servicePort rest)
  from getEndpoints_returns [OF Cons.prems] obtain ep
    where "getEndpoints h lbex service servicePort = Returns ep" by blast
  moreover from Cons obtain tcp udp
    where "servicePortLoop h lbex service serviceName rest = Returns (tcp, udp)" by blast
  ultimately show ?case by simp
qed

lemma getService_returns:
  assumes "\<And>item. ValidateServiceObject h item \<Longrightarrow> \<exists>svc. item = ServiceObj svc"
    and "\<forall>item \<in> set (List (endpointStore lbex)). \<exists>endpoints. item = EndpointsObj endpoints"
  shows "\<exists>tcp udp. getService h lbex key = Returns (tcp, udp)"
proof -
  obtain item exists err where look: "GetByKey (servicesStore lbex) key = (item, exists, err)"
    by (cases "GetByKey (servicesStore lbex) key") auto
  show ?thesis
  proof (cases "ValidateServiceObject h item")
    case True
    with assms(1) obtain svc where svc: "item = ServiceObj svc" by blast
    from servicePortLoop_returns [OF assms(2)] obtain tcp udp where
      "servicePortLoop h lbex svc (fst (GetServiceName h item)) (svc_Spec_Ports svc) = Returns (tcp, udp)"
      by blast
    with look svc show ?thesis
      by (simp add: getService_def)
  next
    case False
    with look show ?thesis
      by (simp add: getService_def)
  qed
qed

subsection \<open>Matching the port entries of a subset\<close>

text \<open>
  C3: the match of a subset port entry against the target of a service port goes by
  the type of the target. For a numeric target an entry contributes addresses only if
  its port number equals the target's number, and its name plays no part; for a
  symbolic target an entry contributes only if its name equals the target's name, and
  neither the helper functions nor the numbers of the service port (its port, the
  integer value of its target) play a part.
\<close>

theorem port_matching_by_type:
  "(Type (TargetPort servicePort) = intstr_Int \<longrightarrow>
      (epPortEndpoints h servicePort subsets epPort \<noteq> [] \<longrightarrow>
         EndpointPort_Port epPort = int32_of_int (fst (GetServicePortTargetPortInt h servicePort)))
      \<and> epPortEndpoints h servicePort subsets (epPort\<lparr>EndpointPort_Name := n\<rparr>)
          = epPortEndpoints h servicePort subsets epPort)
   \<and> (Type (TargetPort servicePort) = intstr_String \<longrightarrow>
      (epPortEndpoints h servicePort subsets epPort \<noteq> [] \<longrightarrow>
         EndpointPort_Name epPort = StrVal (TargetPort servicePort))
      \<and> epPortEndpoints h' (servicePort\<lparr>Port := q, TargetPort := (TargetPort servicePort)\<lparr>IntVal := v\<rparr>\<rparr>)
            subsets epPort
          = epPortEndpoints h servicePort subsets epPort)"
  by (auto simp: epPortEndpoints_def targetPort_def split: prod.splits if_splits)

lemma int32_zero_in_range:
  "int32_of_int v = 0 \<Longrightarrow> int_of_int32 (int32_of_int v) = v \<Longrightarrow> v = 0"
  by (simp add: int32_of_int_def int_of_int32_def)

text \<open>
  C10: the target port 0 stands for no match. A subset port entry whose port number
  is 0 contributes no addresses, also when its name equals a symbolic target or its
  number equals a numeric target. For a numeric target the value of
  \<open>GetServicePortTargetPortInt\<close> is taken to be an \<open>int32\<close> value, as the field it reads
  is; the earlier revision (part_000) needs no such condition.
\<close>

theorem zero_port_no_match:
  "EndpointPort_Port epPort = 0 \<Longrightarrow>
   (Type (TargetPort servicePort) = intstr_Int \<longrightarrow>
      int_of_int32 (int32_of_int (fst (GetServicePortTargetPortInt h servicePort)))
        = fst (GetServicePortTargetPortInt h servicePort)) \<Longrightarrow>
   targetPort h servicePort epPort = 0
   \<and> epPortEndpoints h servicePort subsets epPort = []
   \<and> targetPort_000 getTargetPort servicePort epPort = 0"
proof -
  assume zero: "EndpointPort_Port epPort = 0"
    and range: "Type (TargetPort servicePort) = intstr_Int \<longrightarrow>
      int_of_int32 (int32_of_int (fst (GetServicePortTargetPortInt h servicePort)))
        = fst (GetServicePortTargetPortInt h servicePort)"
  have new: "targetPort h servicePort epPort = 0"
  proof (cases "Type (TargetPort servicePort)")
    case intstr_Int
    with range zero show ?thesis
      using int32_zero_in_range [of "fst (GetServicePortTargetPortInt h servicePort)"]
      by (auto simp: targetPort_def split: prod.splits)
  next
    case intstr_String
    with zero show ?thesis
      by (simp add: targetPort_def int_of_int32_def)
  qed
  have old: "targetPort_000 getTargetPort servicePort epPort = 0"
    using zero by (simp add: targetPort_000_def int_of_int32_def split: intstr_Type.split)
  from new old show ?thesis
    by (simp add: epPortEndpoints_def)
qed

lemma getServiceEndpoints_loop_found:
  "getServiceEndpoints_loop service items = Returns (Inr svcEndpoints) \<Longrightarrow>
   EndpointsObj svcEndpoints \<in> set items
   \<and> Endpoints_Name svcEndpoints = svc_Name service
   \<and> Endpoints_Namespace svcEndpoints = svc_Namespace service"
  by (induction items) (auto split: obj.splits if_splits)

text \<open>
  What one port entry contributes, with the match written out: for a numeric target
  the helper returns the number without error, the entry's port equals it and it is
  not 0; for a symbolic target the entry's name equals the target's name and the
  entry's port is not 0.
\<close>

lemma int_of_int32_zero: "int_of_int32 p = 0 \<longleftrightarrow> p = 0"
  by (simp add: int_of_int32_def signed_eq_0_iff)

lemma targetPort_numeric:
  "Type (TargetPort servicePort) = intstr_Int \<Longrightarrow>
   targetPort h servicePort epPort \<noteq> 0 \<longleftrightarrow>
     snd (GetServicePortTargetPortInt h servicePort) = None
     \<and> EndpointPort_Port epPort = int32_of_int (fst (GetServicePortTargetPortInt h servicePort))
     \<and> fst (GetServicePortTargetPortInt h servicePort) \<noteq> 0"
  by (auto simp: targetPort_def notNil_def split: prod.splits)

lemma targetPort_numeric_value:
  "Type (TargetPort servicePort) = intstr_Int \<Longrightarrow> targetPort h servicePort epPort \<noteq> 0 \<Longrightarrow>
   targetPort h servicePort epPort = fst (GetServicePortTargetPortInt h servicePort)"
  by (auto simp: targetPort_def notNil_def split: prod.splits if_splits)

lemma targetPort_symbolic:
  "Type (TargetPort servicePort) = intstr_String \<Longrightarrow>
   targetPort h servicePort epPort \<noteq> 0 \<longleftrightarrow>
     EndpointPort_Name epPort = StrVal (TargetPort servicePort) \<and> EndpointPort_Port epPort \<noteq> 0"
  by (auto simp: targetPort_def int_of_int32_zero)

lemma targetPort_symbolic_value:
  "Type (TargetPort servicePort) = intstr_String \<Longrightarrow> targetPort h servicePort epPort \<noteq> 0 \<Longrightarrow>
   targetPort h servicePort epPort = int_of_int32 (EndpointPort_Port epPort)"
  by (auto simp: targetPort_def split: if_splits)

lemma set_epPortEndpoints:
  "set (epPortEndpoints h servicePort subsets epPort) =
     (if Type (TargetPort servicePort) = intstr_Int
         \<and> snd (GetServicePortTargetPortInt h servicePort) = None
         \<and> EndpointPort_Port epPort = int32_of_int (fst (GetServicePortTargetPortInt h servicePort))
         \<and> fst (GetServicePortTargetPortInt h servicePort) \<noteq> 0
      then (\<lambda>epAddress. Sprintf_ip_port (IP epAddress) (fst (GetServicePortTargetPortInt h servicePort)))
             ` set (Addresses subsets)
      else {})
     \<union> (if Type (TargetPort servicePort) = intstr_String
           \<and> EndpointPort_Name epPort = StrVal (TargetPort servicePort)
           \<and> EndpointPort_Port epPort \<noteq> 0
        then (\<lambda>epAddress. Sprintf_ip_port (IP epAddress) (int_of_int32 (EndpointPort_Port epPort)))
               ` set (Addresses subsets)
        else {})"
proof (cases "Type (TargetPort servicePort)")
  case intstr_Int
  show ?thesis
  proof (cases "targetPort h servicePort epPort = 0")
    case True
    with intstr_Int targetPort_numeric [OF intstr_Int, of h epPort] show ?thesis
      by (auto simp: epPortEndpoints_def)
  next
    case False
    with intstr_Int targetPort_numeric [OF intstr_Int, of h epPort]
      targetPort_numeric_value [OF intstr_Int False]
    show ?thesis
      by (auto simp: epPortEndpoints_def)
  qed
next
  case intstr_String
  show ?thesis
  proof (cases "targetPort h servicePort epPort = 0")
    case True
    with intstr_String targetPort_symbolic [OF intstr_String, of h epPort] show ?thesis
      by (auto simp: epPortEndpoints_def)
  next
    case False
    with intstr_String targetPort_symbolic [OF intstr_String, of h epPort]
      targetPort_symbolic_value [OF intstr_String False]
    show ?thesis
      by (auto simp: epPortEndpoints_def)
  qed
qed

text \<open>
  C4: when the endpoint store has an Endpoints object with the service's name and
  namespace, \<open>getEndpoints\<close> returns the union, over every subset and every port
  entry of it that matches the target, of the subset's addresses, each formatted as
  \<open>ip:targetPort\<close>. A numeric target matches an entry whose port equals the target's
  number, and the addresses carry that number; a symbolic target matches an entry
  whose name equals the target's name, and the addresses carry the entry's port. The
  port 0 matches nothing (C10).
\<close>

theorem getEndpoints_union:
  "getServiceEndpoints lbex service = Returns (Inr svcEndpoints) \<Longrightarrow>
   EndpointsObj svcEndpoints \<in> set (List (endpointStore lbex))
   \<and> Endpoints_Name svcEndpoints = svc_Name service
   \<and> Endpoints_Namespace svcEndpoints = svc_Namespace service
   \<and> (\<exists>endpoints. getEndpoints h lbex service servicePort = Returns endpoints
        \<and> set endpoints =
            (\<Union>subsets \<in> set (Subsets svcEndpoints). \<Union>epPort \<in> set (Ports subsets).
               (if Type (TargetPort servicePort) = intstr_Int
                   \<and> snd (GetServicePortTargetPortInt h servicePort) = None
                   \<and> EndpointPort_Port epPort
                       = int32_of_int (fst (GetServicePortTargetPortInt h servicePort))
                   \<and> fst (GetServicePortTargetPortInt h servicePort) \<noteq> 0
                then (\<lambda>epAddress. Sprintf_ip_port (IP epAddress)
                                    (fst (GetServicePortTargetPortInt h servicePort)))
                       ` set (Addresses subsets)
                else {})
               \<union> (if Type (TargetPort servicePort) = intstr_String
                     \<and> EndpointPort_Name epPort = StrVal (TargetPort servicePort)
                     \<and> EndpointPort_Port epPort \<noteq> 0
                  then (\<lambda>epAddress. Sprintf_ip_port (IP epAddress)
                                      (int_of_int32 (EndpointPort_Port epPort)))
                         ` set (Addresses subsets)
                  else {})))"
proof -
  assume found: "getServiceEndpoints lbex service = Returns (Inr svcEndpoints)"
  from getServiceEndpoints_loop_found [of service "List (endpointStore lbex)" svcEndpoints] found
  have object: "EndpointsObj svcEndpoints \<in> set (List (endpointStore lbex))
      \<and> Endpoints_Name svcEndpoints = svc_Name service
      \<and> Endpoints_Namespace svcEndpoints = svc_Namespace service"
    by (simp add: getServiceEndpoints_def)
  from found have run: "getEndpoints h lbex service servicePort
      = Returns (concat (map (subsetEndpoints h servicePort) (Subsets svcEndpoints)))"
    by (simp add: getEndpoints_def)
  have "set (concat (map (subsetEndpoints h servicePort) (Subsets svcEndpoints)))
      = (\<Union>subsets \<in> set (Subsets svcEndpoints). \<Union>epPort \<in> set (Ports subsets).
           set (epPortEndpoints h servicePort subsets epPort))"
    by (simp add: subsetEndpoints_def)
  with object run show ?thesis
    by (simp add: set_epPortEndpoints)
qed

text \<open>
  For a numeric target this is the union of the addresses of every subset that has a
  port entry with the target's number.
\<close>

lemma getEndpoints_numeric_union:
  assumes "getServiceEndpoints lbex service = Returns (Inr svcEndpoints)"
    and "Type (TargetPort servicePort) = intstr_Int"
    and "GetServicePortTargetPortInt h servicePort = (v, None)" and "v \<noteq> 0"
  shows "\<exists>endpoints. getEndpoints h lbex service servicePort = Returns endpoints
      \<and> set endpoints =
          (\<lambda>epAddress. Sprintf_ip_port (IP epAddress) v)
            ` (\<Union>subsets \<in> {subsets \<in> set (Subsets svcEndpoints).
                                \<exists>epPort \<in> set (Ports subsets). EndpointPort_Port epPort = int32_of_int v}.
                 set (Addresses subsets))"
proof -
  from assms(1) have "getEndpoints h lbex service servicePort
      = Returns (concat (map (subsetEndpoints h servicePort) (Subsets svcEndpoints)))"
    by (simp add: getEndpoints_def)
  moreover have "set (concat (map (subsetEndpoints h servicePort) (Subsets svcEndpoints)))
      = (\<lambda>epAddress. Sprintf_ip_port (IP epAddress) v)
            ` (\<Union>subsets \<in> {subsets \<in> set (Subsets svcEndpoints).
                                \<exists>epPort \<in> set (Ports subsets). EndpointPort_Port epPort = int32_of_int v}.
                 set (Addresses subsets))"
    using assms(2-4) by (auto simp: subsetEndpoints_def set_epPortEndpoints)
  ultimately show ?thesis by simp
qed

subsection \<open>The result depends on the contents of the stores only\<close>

lemma getServiceEndpoints_loop_unique:
  "\<forall>item \<in> set items. \<exists>endpoints. item = EndpointsObj endpoints \<Longrightarrow>
   distinct (map endpointsKey items) \<Longrightarrow>
   EndpointsObj e \<in> set items \<Longrightarrow>
   svc_Name service = Endpoints_Name e \<Longrightarrow> svc_Namespace service = Endpoints_Namespace e \<Longrightarrow>
   getServiceEndpoints_loop service items = Returns (Inr e)"
proof (induction items)
  case Nil
  then show ?case by simp
next
  case (Cons item rest)
  from Cons.prems(1) obtain e' where item: "item = EndpointsObj e'"
    by auto
  show ?case
  proof (cases "svc_Name service = Endpoints_Name e' \<and> svc_Namespace service = Endpoints_Namespace e'")
    case True
    have "e = e'"
    proof (rule ccontr)
      assume "e \<noteq> e'"
      with Cons.prems(3) item have "EndpointsObj e \<in> set rest" by auto
      then have "endpointsKey (EndpointsObj e) \<in> endpointsKey ` set rest" by blast
      moreover from True Cons.prems(4,5) item have "endpointsKey item = endpointsKey (EndpointsObj e)"
        by (simp add: endpointsKey_def)
      ultimately show False using Cons.prems(2) by simp
    qed
    with True item show ?thesis by simp
  next
    case False
    with Cons.prems(3-5) item have "EndpointsObj e \<in> set rest" by auto
    with Cons False item show ?thesis by auto
  qed
qed

lemma getServiceEndpoints_loop_none:
  "\<forall>item \<in> set items. \<exists>endpoints. item = EndpointsObj endpoints \<Longrightarrow>
   \<forall>e. EndpointsObj e \<in> set items \<longrightarrow>
     \<not> (svc_Name service = Endpoints_Name e \<and> svc_Namespace service = Endpoints_Namespace e) \<Longrightarrow>
   getServiceEndpoints_loop service items
     = Returns (Inl (''could not find endpoints for service: '' @ svc_Name service))"
  by (induction items) (auto split: obj.splits)

lemma getServiceEndpoints_loop_contents:
  assumes "mset items' = mset items"
    and "\<forall>item \<in> set items. \<exists>endpoints. item = EndpointsObj endpoints"
    and "distinct (map endpointsKey items)"
  shows "getServiceEndpoints_loop service items' = getServiceEndpoints_loop service items"
proof -
  from assms(1) have same: "set items' = set items"
    by (rule mset_eq_setD)
  from assms(1) have "mset (map endpointsKey items') = mset (map endpointsKey items)"
    by simp
  with assms(3) have distinct': "distinct (map endpointsKey items')"
    by (metis mset_eq_imp_distinct_iff)
  from assms(2) same have all': "\<forall>item \<in> set items'. \<exists>endpoints. item = EndpointsObj endpoints"
    by simp
  show ?thesis
  proof (cases "\<exists>e. EndpointsObj e \<in> set items
      \<and> svc_Name service = Endpoints_Name e \<and> svc_Namespace service = Endpoints_Namespace e")
    case True
    then obtain e where e: "EndpointsObj e \<in> set items"
      "svc_Name service = Endpoints_Name e" "svc_Namespace service = Endpoints_Namespace e"
      by blast
    from e(1) same have e': "EndpointsObj e \<in> set items'" by simp
    from getServiceEndpoints_loop_unique [OF assms(2,3) e]
      getServiceEndpoints_loop_unique [OF all' distinct' e' e(2,3)]
    show ?thesis by simp
  next
    case False
    then have none: "\<forall>e. EndpointsObj e \<in> set items \<longrightarrow>
        \<not> (svc_Name service = Endpoints_Name e \<and> svc_Namespace service = Endpoints_Namespace e)"
      by blast
    with same have none': "\<forall>e. EndpointsObj e \<in> set items' \<longrightarrow>
        \<not> (svc_Name service = Endpoints_Name e \<and> svc_Namespace service = Endpoints_Namespace e)"
      by simp
    from getServiceEndpoints_loop_none [OF assms(2) none]
      getServiceEndpoints_loop_none [OF all' none']
    show ?thesis by simp
  qed
qed

lemma servicePortLoop_cong:
  "(\<And>servicePort. getEndpoints h lbex' service servicePort = getEndpoints h lbex service servicePort) \<Longrightarrow>
   servicePortLoop h lbex' service serviceName ports = servicePortLoop h lbex service serviceName ports"
  by (induction ports) (simp_all cong: outcome.case_cong)

text \<open>
  C6: \<open>getService\<close> is a function of the stores and the key, so two calls on the same
  stores return the same lists. The listing order of the endpoint store, the one thing
  that can differ between two calls on the same contents, does not matter either: when
  the store holds Endpoints objects under distinct keys, any two listings of the same
  contents give the same TCP and UDP lists.
\<close>

theorem getService_same_contents:
  assumes "GetByKey (servicesStore lbex') = GetByKey (servicesStore lbex)"
    and "lbex_service lbex' = lbex_service lbex"
    and "mset (List (endpointStore lbex')) = mset (List (endpointStore lbex))"
    and "\<forall>item \<in> set (List (endpointStore lbex)). \<exists>endpoints. item = EndpointsObj endpoints"
    and "distinct (map endpointsKey (List (endpointStore lbex)))"
  shows "getService h lbex' key = getService h lbex key"
proof -
  have "getServiceEndpoints lbex' service = getServiceEndpoints lbex service" for service
    unfolding getServiceEndpoints_def
    by (rule getServiceEndpoints_loop_contents [OF assms(3-5)])
  then have "getEndpoints h lbex' service servicePort = getEndpoints h lbex service servicePort"
    for service servicePort
    by (simp add: getEndpoints_def)
  then have "servicePortLoop h lbex' service serviceName ports
      = servicePortLoop h lbex service serviceName ports" for service serviceName ports
    by (rule servicePortLoop_cong)
  with assms(1,2) show ?thesis
    by (simp add: getService_def cong: prod.case_cong obj.case_cong if_cong)
qed

section \<open>Properties of the sync functions\<close>

lemma enqueueAll_queue:
  "shuttingDown (enqueueAll keys q) = shuttingDown q
   \<and> processing (enqueueAll keys q) = processing q
   \<and> set (queued (enqueueAll keys q)) = set (queued q) \<union> (set keys - set (processing q))"
  unfolding enqueueAll_def
  by (induction keys arbitrary: q) (auto simp: Enqueue_def)

text \<open>
  C8: when \<open>syncNodes\<close> processes a node key, it hands every service key that the
  configurator returns as affected to \<open>Enqueue\<close> of the service queue, from
  \<open>DeleteNode\<close> for a node that is no longer in the store and from \<open>AddOrUpdateNode\<close>
  for a node that is. Afterwards the queue holds what it held and every affected key
  but those whose sync is in progress, for which \<open>Enqueue\<close> is a no-op.
\<close>

theorem syncNodes_enqueues_affected:
  assumes "\<not> IsShuttingDown (nodesQueue lbex)"
    and "GetByKey (nodesStore lbex) key = (storeObj, exists, None)"
    and "syncNodes h cf lbex (StringObj key) = (result, lbex')"
  shows "(\<not> exists \<longrightarrow>
            result = None
            \<and> servicesQueue lbex'
                = foldl (\<lambda>q svc. Enqueue svc q) (servicesQueue lbex) (fst (DeleteNode cf key (cfgtor lbex)))
            \<and> processing (servicesQueue lbex') = processing (servicesQueue lbex)
            \<and> set (queued (servicesQueue lbex'))
                = set (queued (servicesQueue lbex))
                  \<union> (set (fst (DeleteNode cf key (cfgtor lbex))) - set (processing (servicesQueue lbex))))
       \<and> (exists \<and> ValidateNodeObjectType h storeObj = None \<and> snd (GetNodeAddress h storeObj) = None \<longrightarrow>
            result = None
            \<and> servicesQueue lbex'
                = foldl (\<lambda>q svc. Enqueue svc q) (servicesQueue lbex)
                    (fst (AddOrUpdateNode cf (nodeOf h key storeObj) (cfgtor lbex)))
            \<and> processing (servicesQueue lbex') = processing (servicesQueue lbex)
            \<and> set (queued (servicesQueue lbex'))
                = set (queued (servicesQueue lbex))
                  \<union> (set (fst (AddOrUpdateNode cf (nodeOf h key storeObj) (cfgtor lbex)))
                     - set (processing (servicesQueue lbex))))"
proof -
  have queue: "processing (foldl (\<lambda>q svc. Enqueue svc q) q keys) = processing q
      \<and> set (queued (foldl (\<lambda>q svc. Enqueue svc q) q keys)) = set (queued q) \<union> (set keys - set (processing q))"
    for q keys
    using enqueueAll_queue [of keys q] by (simp add: enqueueAll_def)
  from assms have "\<not> exists \<longrightarrow> result = None
      \<and> servicesQueue lbex'
          = foldl (\<lambda>q svc. Enqueue svc q) (servicesQueue lbex) (fst (DeleteNode cf key (cfgtor lbex)))"
    by (auto simp: syncNodes_def notNil_def enqueueAll_def split: prod.splits if_splits)
  moreover from assms have "exists \<and> ValidateNodeObjectType h storeObj = None
      \<and> snd (GetNodeAddress h storeObj) = None \<longrightarrow> result = None
      \<and> servicesQueue lbex'
          = foldl (\<lambda>q svc. Enqueue svc q) (servicesQueue lbex)
              (fst (AddOrUpdateNode cf (nodeOf h key storeObj) (cfgtor lbex)))"
    by (auto simp: syncNodes_def notNil_def enqueueAll_def split: prod.splits if_splits)
  ultimately show ?thesis
    using queue by simp
qed

text \<open>
  C9: for a key whose Endpoints object is no longer in the endpoint store,
  \<open>syncEndpoints\<close> returns nil and leaves the controller, the state of the
  configurator included, as it was.
\<close>

theorem syncEndpoints_deleted_unchanged:
  "GetByKey (endpointStore lbex) key = (item, False, None) \<Longrightarrow>
   syncEndpoints h lbex (StringObj key) = Returns (None, lbex)"
  by (simp add: syncEndpoints_def notNil_def)

text \<open>
  C7: the claim is that every failing store lookup of a sync invocation is returned
  as the error of the sync function. This holds for the lookup that the sync function
  makes itself: its error is returned and nothing is changed. The lookup inside
  \<open>getService\<close> is different: lines 317 to 320 treat its error as an absent object and
  return two empty lists, and \<open>syncEndpoints\<close>, whose own lookup in the endpoint store
  has found the key, then returns nil and changes nothing.
\<close>

theorem sync_lookup_error_returned:
  "(\<not> IsShuttingDown (nodesQueue lbex) \<and> GetByKey (nodesStore lbex) key = (item, exists, Some e) \<longrightarrow>
      syncNodes h cf lbex (StringObj key) = (Some e, lbex))
   \<and> (\<not> IsShuttingDown (servicesQueue lbex) \<and> GetByKey (servicesStore lbex) key = (item, exists, Some e) \<longrightarrow>
      syncServices h cf lbex (StringObj key) = Returns (Some e, lbex))
   \<and> (\<not> IsShuttingDown (endpointsQueue lbex) \<and> GetByKey (endpointStore lbex) key = (item, exists, Some e) \<longrightarrow>
      syncEndpoints h lbex (StringObj key) = Returns (Some e, lbex))
   \<and> (GetByKey (servicesStore lbex) key = (item, exists, Some e) \<longrightarrow>
      getService h lbex key = Returns ([], [])
      \<and> (\<not> IsShuttingDown (endpointsQueue lbex)
           \<and> GetByKey (endpointStore lbex) key = (endpoints, True, None) \<longrightarrow>
         syncEndpoints h lbex (StringObj key) = Returns (None, lbex)))"
  by (simp add: syncNodes_def syncServices_def syncEndpoints_def getService_def notNil_def)

section \<open>Running the controller on the cluster\<close>

text \<open>
  The unfolding rules that evaluate the definitions on concrete objects, and the
  theorems above at concrete inputs.
\<close>

lemmas run_controller =
  getService_def getServices_def getEndpoints_def getServiceEndpoints_def subsetEndpoints_def
  epPortEndpoints_def targetPort_def newService_def sort_Sort_def serviceByName_Less_def
  SupportedAlgorithms_def DefaultAlgorithm_def notNil_def int32_of_int_def int_of_int32_def
  Sprintf_ip_port_def show_int_def

lemmas run_cluster =
  utils_def webCluster_def twoServices_def webEndpoints_def apiEndpoints_def cluster_def
  storeOf_def failingStore_def failingCluster_def nodeCluster_def lbService_def endpointsOf_def subset_def tcpPort_def numbered_def
  named_def idleQueue_def

lemmas run_sync =
  syncNodes_def syncServices_def syncEndpoints_def IsShuttingDown_def Enqueue_def enqueueAll_def
  nodeOf_def filename_of_def nodeConfigurator_def nodeServices_def

text \<open>
  The theorem of C1 at the service \<open>ns/web\<close> with the algorithm annotation \<open>weighted\<close>: the record
  has the empty algorithm.
\<close>

theorem getService_unsupported_algorithm_witness:
  "getService utils
     (webCluster [(''loadbalancer.lbex/algorithm'', ''weighted'')] [tcpPort 80 (numbered 8080)]
        [subset [''10.0.0.1''] [(''http'', 8080)]]) ''ns/web''
   = Returns ([\<lparr>Name = ''web-80'', Ep = [''10.0.0.1:8080''], BackendPort = 8080, Host = [],
                 Algorithm = [], FrontendPort = 80\<rparr>], [])
   \<and> [] \<noteq> DefaultAlgorithm"
proof -
  let ?svc = "lbService ''web'' [(''loadbalancer.lbex/algorithm'', ''weighted'')] [tcpPort 80 (numbered 8080)]"
  let ?lbex = "webCluster [(''loadbalancer.lbex/algorithm'', ''weighted'')] [tcpPort 80 (numbered 8080)]
        [subset [''10.0.0.1''] [(''http'', 8080)]]"
  let ?s = "\<lparr>Name = ''web-80'', Ep = [''10.0.0.1:8080''], BackendPort = 8080, Host = [],
                 Algorithm = [], FrontendPort = 80\<rparr>"
  have run: "getService utils ?lbex ''ns/web'' = Returns ([?s], [])"
    by (simp add: run_controller run_cluster)
  have look: "GetByKey (servicesStore ?lbex) ''ns/web'' = (ServiceObj ?svc, True, None)"
    by (simp add: run_cluster)
  have val: "GetAlgorithm utils ?svc = Some ''weighted''"
    by (simp add: run_cluster)
  have unsupported: "''weighted'' \<notin> set SupportedAlgorithms"
    by (simp add: SupportedAlgorithms_def)
  have "Algorithm ?s = [] \<and> Algorithm ?s \<noteq> DefaultAlgorithm"
    by (rule getService_unsupported_algorithm [OF run _ look val unsupported]) simp
  with run show ?thesis by simp
qed

text \<open>
  The theorem of C2 at a service with two ports, of which the second resolves to no address: one
  record, with one address.
\<close>

theorem getService_endpoints_nonempty_witness:
  "getService utils
     (webCluster [] [tcpPort 80 (numbered 8080), tcpPort 443 (named ''https'')]
        [subset [''10.0.0.1''] [(''http'', 8080)]]) ''ns/web''
   = Returns ([\<lparr>Name = ''web-80'', Ep = [''10.0.0.1:8080''], BackendPort = 8080, Host = [],
                 Algorithm = ''roundrobin'', FrontendPort = 80\<rparr>], [])
   \<and> [''10.0.0.1:8080''] \<noteq> []"
proof -
  let ?lbex = "webCluster [] [tcpPort 80 (numbered 8080), tcpPort 443 (named ''https'')]
        [subset [''10.0.0.1''] [(''http'', 8080)]]"
  let ?s = "\<lparr>Name = ''web-80'', Ep = [''10.0.0.1:8080''], BackendPort = 8080, Host = [],
                 Algorithm = ''roundrobin'', FrontendPort = 80\<rparr>"
  have run: "getService utils ?lbex ''ns/web'' = Returns ([?s], [])"
    by (simp add: run_controller run_cluster)
  have "Ep ?s \<noteq> []"
    by (rule getService_endpoints_nonempty [OF run]) simp
  with run show ?thesis by simp
qed

text \<open>
  The theorem of C3 at a numeric target 8080 that also carries the name \<open>http\<close>, and at a symbolic
  target \<open>http\<close> that also carries the number 8080.
\<close>

theorem port_matching_by_type_witness:
  "epPortEndpoints utils (tcpPort 80 \<lparr>Type = intstr_Int, IntVal = 8080, StrVal = ''http''\<rparr>)
     (subset [''10.0.0.1''] []) \<lparr>EndpointPort_Name = ''http'', EndpointPort_Port = 9090\<rparr> = []
   \<and> epPortEndpoints utils (tcpPort 80 \<lparr>Type = intstr_Int, IntVal = 8080, StrVal = ''http''\<rparr>)
     (subset [''10.0.0.1''] []) \<lparr>EndpointPort_Name = ''metrics'', EndpointPort_Port = 8080\<rparr>
      = [''10.0.0.1:8080'']
   \<and> epPortEndpoints utils (tcpPort 8080 \<lparr>Type = intstr_String, IntVal = 8080, StrVal = ''http''\<rparr>)
     (subset [''10.0.0.1''] []) \<lparr>EndpointPort_Name = ''metrics'', EndpointPort_Port = 8080\<rparr> = []
   \<and> epPortEndpoints utils (tcpPort 8080 \<lparr>Type = intstr_String, IntVal = 8080, StrVal = ''http''\<rparr>)
     (subset [''10.0.0.1''] []) \<lparr>EndpointPort_Name = ''http'', EndpointPort_Port = 9090\<rparr>
      = [''10.0.0.1:9090'']
   \<and> (8080 :: int32) = int32_of_int 8080"
proof -
  let ?numeric = "tcpPort 80 \<lparr>Type = intstr_Int, IntVal = 8080, StrVal = ''http''\<rparr>"
  let ?symbolic = "tcpPort 8080 \<lparr>Type = intstr_String, IntVal = 8080, StrVal = ''http''\<rparr>"
  let ?subsets = "subset [''10.0.0.1''] []"
  let ?metrics = "\<lparr>EndpointPort_Name = ''metrics'', EndpointPort_Port = 8080\<rparr>"
  let ?http = "\<lparr>EndpointPort_Name = ''http'', EndpointPort_Port = 9090\<rparr>"
  have run:
    "epPortEndpoints utils ?numeric ?subsets ?http = []"
    "epPortEndpoints utils ?numeric ?subsets ?metrics = [''10.0.0.1:8080'']"
    "epPortEndpoints utils ?symbolic ?subsets ?metrics = []"
    "epPortEndpoints utils ?symbolic ?subsets ?http = [''10.0.0.1:9090'']"
    by (simp_all add: run_controller run_cluster)
  have numeric: "Type (TargetPort ?numeric) = intstr_Int"
    and symbolic: "Type (TargetPort ?symbolic) = intstr_String"
    by (simp_all add: tcpPort_def)
  from port_matching_by_type [of ?numeric utils ?subsets ?metrics] numeric run(2)
  have number: "EndpointPort_Port ?metrics = int32_of_int (fst (GetServicePortTargetPortInt utils ?numeric))"
    by simp
  from port_matching_by_type [of ?symbolic utils ?subsets ?http] symbolic run(4)
  have name: "EndpointPort_Name ?http = StrVal (TargetPort ?symbolic)"
    by simp
  from number have "(8080 :: int32) = int32_of_int 8080"
    by (simp add: run_controller run_cluster)
  with run show ?thesis by simp
qed

text \<open>
  The theorem of C4 at an Endpoints object with three subsets: two expose the target,
  by number 80 and then by the name \<open>http\<close> with different ports, the third does not;
  the first has a further port entry that does not match.
\<close>

theorem getEndpoints_union_witness:
  "getEndpoints utils
     (webCluster [] [tcpPort 80 (numbered 80)]
        [subset [''10.0.0.1''] [(''http'', 80), (''metrics'', 9090)],
         subset [''10.0.0.2''] [(''http'', 80)],
         subset [''10.0.0.3''] [(''admin'', 9090)]])
     (lbService ''web'' [] [tcpPort 80 (numbered 80)]) (tcpPort 80 (numbered 80))
   = Returns [''10.0.0.1:80'', ''10.0.0.2:80'']
   \<and> set [''10.0.0.1:80'', ''10.0.0.2:80''] = {''10.0.0.1:80''} \<union> {''10.0.0.2:80''}
   \<and> getEndpoints utils
     (webCluster [] [tcpPort 80 (named ''http'')]
        [subset [''10.0.0.1''] [(''http'', 8080)],
         subset [''10.0.0.2''] [(''http'', 8081)],
         subset [''10.0.0.3''] [(''admin'', 8080)]])
     (lbService ''web'' [] [tcpPort 80 (named ''http'')]) (tcpPort 80 (named ''http''))
   = Returns [''10.0.0.1:8080'', ''10.0.0.2:8081'']
   \<and> set [''10.0.0.1:8080'', ''10.0.0.2:8081''] = {''10.0.0.1:8080''} \<union> {''10.0.0.2:8081''}"
proof -
  let ?numeric = "tcpPort 80 (numbered 80)"
  let ?subsets = "[subset [''10.0.0.1''] [(''http'', 80), (''metrics'', 9090)],
         subset [''10.0.0.2''] [(''http'', 80)],
         subset [''10.0.0.3''] [(''admin'', 9090)]]"
  let ?lbex = "webCluster [] [?numeric] ?subsets"
  let ?service = "lbService ''web'' [] [?numeric]"
  have found: "getServiceEndpoints ?lbex ?service = Returns (Inr (endpointsOf ''web'' ?subsets))"
    by (simp add: run_controller run_cluster)
  have run: "getEndpoints utils ?lbex ?service ?numeric = Returns [''10.0.0.1:80'', ''10.0.0.2:80'']"
    by (simp add: run_controller run_cluster)
  from getEndpoints_union [OF found, of utils ?numeric] run
  have numeric: "set [''10.0.0.1:80'', ''10.0.0.2:80''] = {''10.0.0.1:80''} \<union> {''10.0.0.2:80''}"
    by (simp add: run_controller run_cluster)
  let ?symbolic = "tcpPort 80 (named ''http'')"
  let ?subsets' = "[subset [''10.0.0.1''] [(''http'', 8080)],
         subset [''10.0.0.2''] [(''http'', 8081)],
         subset [''10.0.0.3''] [(''admin'', 8080)]]"
  let ?lbex' = "webCluster [] [?symbolic] ?subsets'"
  let ?service' = "lbService ''web'' [] [?symbolic]"
  have found': "getServiceEndpoints ?lbex' ?service' = Returns (Inr (endpointsOf ''web'' ?subsets'))"
    by (simp add: run_controller run_cluster)
  have run': "getEndpoints utils ?lbex' ?service' ?symbolic = Returns [''10.0.0.1:8080'', ''10.0.0.2:8081'']"
    by (simp add: run_controller run_cluster)
  from getEndpoints_union [OF found', of utils ?symbolic] run'
  have symbolic: "set [''10.0.0.1:8080'', ''10.0.0.2:8081''] = {''10.0.0.1:8080''} \<union> {''10.0.0.2:8081''}"
    by (simp add: run_controller run_cluster)
  from run numeric run' symbolic show ?thesis
    by blast
qed

text \<open>
  The theorem of C5 at a service whose ports are declared as 80, 443, and at two services listed as
  web, api.
\<close>

theorem outputs_sorted_by_name_witness:
  "getService utils
     (webCluster [] [tcpPort 80 (numbered 8080), tcpPort 443 (numbered 8080)]
        [subset [''10.0.0.1''] [(''http'', 8080)]]) ''ns/web''
   = Returns ([\<lparr>Name = ''web-443'', Ep = [''10.0.0.1:8080''], BackendPort = 8080, Host = [],
                 Algorithm = ''roundrobin'', FrontendPort = 443\<rparr>,
               \<lparr>Name = ''web-80'', Ep = [''10.0.0.1:8080''], BackendPort = 8080, Host = [],
                 Algorithm = ''roundrobin'', FrontendPort = 80\<rparr>], [])
   \<and> getServices utils (twoServices [webEndpoints, apiEndpoints])
   = Returns ([\<lparr>Name = ''api-80'', Ep = [''10.0.0.2:8080''], BackendPort = 8080, Host = [],
                 Algorithm = ''roundrobin'', FrontendPort = 80\<rparr>,
               \<lparr>Name = ''web-80'', Ep = [''10.0.0.1:8080''], BackendPort = 8080, Host = [],
                 Algorithm = ''roundrobin'', FrontendPort = 80\<rparr>], [])
   \<and> sorted [''web-443'', ''web-80''] \<and> sorted [''api-80'', ''web-80'']"
proof -
  let ?one = "webCluster [] [tcpPort 80 (numbered 8080), tcpPort 443 (numbered 8080)]
        [subset [''10.0.0.1''] [(''http'', 8080)]]"
  let ?w443 = "\<lparr>Name = ''web-443'', Ep = [''10.0.0.1:8080''], BackendPort = 8080, Host = [],
                 Algorithm = ''roundrobin'', FrontendPort = 443\<rparr>"
  let ?w80 = "\<lparr>Name = ''web-80'', Ep = [''10.0.0.1:8080''], BackendPort = 8080, Host = [],
                 Algorithm = ''roundrobin'', FrontendPort = 80\<rparr>"
  let ?a80 = "\<lparr>Name = ''api-80'', Ep = [''10.0.0.2:8080''], BackendPort = 8080, Host = [],
                 Algorithm = ''roundrobin'', FrontendPort = 80\<rparr>"
  have one: "getService utils ?one ''ns/web'' = Returns ([?w443, ?w80], [])"
    by (simp add: run_controller run_cluster)
  have all: "getServices utils (twoServices [webEndpoints, apiEndpoints]) = Returns ([?a80, ?w80], [])"
    by (simp add: run_controller run_cluster)
  from outputs_sorted_by_name [of utils ?one "''ns/web''" "[?w443, ?w80]" "[]"] one
  have "sorted (map Name [?w443, ?w80])"
    by blast
  moreover
  from outputs_sorted_by_name [of utils "twoServices [webEndpoints, apiEndpoints]" _ _ _ "[?a80, ?w80]" "[]"] all
  have "sorted (map Name [?a80, ?w80])"
    by blast
  ultimately have "sorted (map Name [?w443, ?w80]) \<and> sorted (map Name [?a80, ?w80])"
    by blast
  with one all show ?thesis by simp
qed

text \<open>
  The theorem of C6 at two listings of the same two Endpoints objects.
\<close>

theorem getService_same_contents_witness:
  "getService utils (twoServices [apiEndpoints, webEndpoints]) ''ns/web''
   = getService utils (twoServices [webEndpoints, apiEndpoints]) ''ns/web''
   \<and> getService utils (twoServices [webEndpoints, apiEndpoints]) ''ns/web''
   = Returns ([\<lparr>Name = ''web-80'', Ep = [''10.0.0.1:8080''], BackendPort = 8080, Host = [],
                 Algorithm = ''roundrobin'', FrontendPort = 80\<rparr>], [])"
proof -
  let ?lbex = "twoServices [webEndpoints, apiEndpoints]"
  let ?lbex' = "twoServices [apiEndpoints, webEndpoints]"
  have services: "GetByKey (servicesStore ?lbex') = GetByKey (servicesStore ?lbex)"
    and scope: "lbex_service ?lbex' = lbex_service ?lbex"
    by (simp_all add: twoServices_def cluster_def)
  have contents: "mset (List (endpointStore ?lbex')) = mset (List (endpointStore ?lbex))"
    by (simp add: twoServices_def cluster_def storeOf_def)
  have objects: "\<forall>item \<in> set (List (endpointStore ?lbex)). \<exists>endpoints. item = EndpointsObj endpoints"
    by (simp add: run_cluster)
  have keys: "distinct (map endpointsKey (List (endpointStore ?lbex)))"
    by (simp add: run_cluster endpointsKey_def)
  have "getService utils ?lbex ''ns/web''
      = Returns ([\<lparr>Name = ''web-80'', Ep = [''10.0.0.1:8080''], BackendPort = 8080, Host = [],
                 Algorithm = ''roundrobin'', FrontendPort = 80\<rparr>], [])"
    by (simp add: run_controller run_cluster)
  with getService_same_contents [OF services scope contents objects keys, of utils "''ns/web''"]
  show ?thesis by simp
qed

text \<open>
  The theorem of C7 at a controller whose stores all fail, and at one whose services
  store fails while the endpoint store holds \<open>ns/api\<close>.
\<close>

theorem sync_lookup_error_returned_witness:
  "syncNodes utils nodeConfigurator (failingCluster ''timeout'') (StringObj ''ns/web'')
     = (Some ''timeout'', failingCluster ''timeout'')
   \<and> syncServices utils nodeConfigurator (failingCluster ''timeout'') (StringObj ''ns/web'')
     = Returns (Some ''timeout'', failingCluster ''timeout'')
   \<and> syncEndpoints utils (failingCluster ''timeout'') (StringObj ''ns/web'')
     = Returns (Some ''timeout'', failingCluster ''timeout'')
   \<and> getService utils (failingCluster ''timeout'') ''ns/web'' = Returns ([], [])
   \<and> getService utils (cluster (failingStore ''timeout'') (storeOf [apiEndpoints]) (storeOf []) ())
       ''ns/api'' = Returns ([], [])
   \<and> syncEndpoints utils (cluster (failingStore ''timeout'') (storeOf [apiEndpoints]) (storeOf []) ())
       (StringObj ''ns/api'')
     = Returns (None, cluster (failingStore ''timeout'') (storeOf [apiEndpoints]) (storeOf []) ())"
proof -
  let ?lbex = "failingCluster ''timeout''"
  have running: "\<not> IsShuttingDown (nodesQueue ?lbex)" "\<not> IsShuttingDown (servicesQueue ?lbex)"
    "\<not> IsShuttingDown (endpointsQueue ?lbex)"
    by (simp_all add: failingCluster_def cluster_def idleQueue_def IsShuttingDown_def)
  have failing:
    "GetByKey (nodesStore ?lbex) ''ns/web'' = (OtherObj, False, Some ''timeout'')"
    "GetByKey (servicesStore ?lbex) ''ns/web'' = (OtherObj, False, Some ''timeout'')"
    "GetByKey (endpointStore ?lbex) ''ns/web'' = (OtherObj, False, Some ''timeout'')"
    by (simp_all add: failingCluster_def cluster_def failingStore_def)
  from sync_lookup_error_returned [of ?lbex "''ns/web''" OtherObj False "''timeout''" utils nodeConfigurator]
    running failing
  have own: "syncNodes utils nodeConfigurator ?lbex (StringObj ''ns/web'') = (Some ''timeout'', ?lbex)
    \<and> syncServices utils nodeConfigurator ?lbex (StringObj ''ns/web'') = Returns (Some ''timeout'', ?lbex)
    \<and> syncEndpoints utils ?lbex (StringObj ''ns/web'') = Returns (Some ''timeout'', ?lbex)
    \<and> getService utils ?lbex ''ns/web'' = Returns ([], [])"
    by simp
  let ?half = "cluster (failingStore ''timeout'') (storeOf [apiEndpoints]) (storeOf []) ()"
  have running': "\<not> IsShuttingDown (endpointsQueue ?half)"
    by (simp add: cluster_def idleQueue_def IsShuttingDown_def)
  have services: "GetByKey (servicesStore ?half) ''ns/api'' = (OtherObj, False, Some ''timeout'')"
    by (simp add: cluster_def failingStore_def)
  have endpoints: "GetByKey (endpointStore ?half) ''ns/api''
      = (EndpointsObj (endpointsOf ''api'' [subset [''10.0.0.2''] [(''http'', 8080)]]), True, None)"
    by (simp add: cluster_def storeOf_def apiEndpoints_def)
  from sync_lookup_error_returned [of ?half "''ns/api''" OtherObj False "''timeout''" utils _
      "EndpointsObj (endpointsOf ''api'' [subset [''10.0.0.2''] [(''http'', 8080)]])"]
    running' services endpoints
  have inner: "getService utils ?half ''ns/api'' = Returns ([], [])
    \<and> syncEndpoints utils ?half (StringObj ''ns/api'') = Returns (None, ?half)"
    by simp
  from own inner show ?thesis
    by simp
qed

text \<open>
  The case that the claim of C7 does not survive: the services store fails inside
  \<open>getService\<close> while the endpoint store holds \<open>ns/web\<close>, and \<open>syncEndpoints\<close> returns
  nil.
\<close>

theorem syncEndpoints_hides_lookup_error:
  "GetByKey (servicesStore (cluster (failingStore ''timeout'') (storeOf [webEndpoints]) (storeOf []) ()))
      ''ns/web'' = (OtherObj, False, Some ''timeout'')
   \<and> GetByKey (endpointStore (cluster (failingStore ''timeout'') (storeOf [webEndpoints]) (storeOf []) ()))
      ''ns/web'' = (EndpointsObj (endpointsOf ''web'' [subset [''10.0.0.1''] [(''http'', 8080)]]), True, None)
   \<and> getService utils (cluster (failingStore ''timeout'') (storeOf [webEndpoints]) (storeOf []) ())
      ''ns/web'' = Returns ([], [])
   \<and> syncEndpoints utils (cluster (failingStore ''timeout'') (storeOf [webEndpoints]) (storeOf []) ())
      (StringObj ''ns/web'')
     = Returns (None, cluster (failingStore ''timeout'') (storeOf [webEndpoints]) (storeOf []) ())"
  by (simp add: run_sync run_controller run_cluster)

text \<open>
  The theorem of C8 at the deleted node \<open>node-1\<close>, which the services \<open>ns/svc-a\<close> and
  \<open>ns/svc-c\<close> reference: with an idle service queue both keys are queued; with
  \<open>ns/svc-a\<close> in progress only \<open>ns/svc-c\<close> is.
\<close>

theorem syncNodes_enqueues_affected_witness:
  "syncNodes utils nodeConfigurator (nodeCluster []) (StringObj ''node-1'')
   = (None, (cluster (storeOf []) (storeOf []) (storeOf []) [])
              \<lparr>servicesQueue := \<lparr>shuttingDown = False, queued = [''ns/svc-a'', ''ns/svc-c''],
                                  processing = []\<rparr>\<rparr>)
   \<and> set [''ns/svc-a'', ''ns/svc-c''] = {} \<union> ({''ns/svc-a'', ''ns/svc-c''} - {})
   \<and> syncNodes utils nodeConfigurator (nodeCluster [''ns/svc-a'']) (StringObj ''node-1'')
   = (None, (cluster (storeOf []) (storeOf []) (storeOf []) [])
              \<lparr>servicesQueue := \<lparr>shuttingDown = False, queued = [''ns/svc-c''],
                                  processing = [''ns/svc-a'']\<rparr>\<rparr>)
   \<and> set [''ns/svc-c''] = {} \<union> ({''ns/svc-a'', ''ns/svc-c''} - {''ns/svc-a''})"
proof -
  let ?idle = "(cluster (storeOf []) (storeOf []) (storeOf []) [])
              \<lparr>servicesQueue := \<lparr>shuttingDown = False, queued = [''ns/svc-a'', ''ns/svc-c''],
                                  processing = []\<rparr>\<rparr>"
  let ?busy = "(cluster (storeOf []) (storeOf []) (storeOf []) [])
              \<lparr>servicesQueue := \<lparr>shuttingDown = False, queued = [''ns/svc-c''],
                                  processing = [''ns/svc-a'']\<rparr>\<rparr>"
  have running: "\<not> IsShuttingDown (nodesQueue (nodeCluster inProgress))" for inProgress
    by (simp add: run_sync run_cluster)
  have deleted: "GetByKey (nodesStore (nodeCluster inProgress)) ''node-1'' = (OtherObj, False, None)"
    for inProgress
    by (simp add: run_cluster)
  have idle: "syncNodes utils nodeConfigurator (nodeCluster []) (StringObj ''node-1'') = (None, ?idle)"
    by (simp add: run_sync run_cluster notNil_def)
  have busy: "syncNodes utils nodeConfigurator (nodeCluster [''ns/svc-a'']) (StringObj ''node-1'')
      = (None, ?busy)"
    by (simp add: run_sync run_cluster notNil_def)
  have deleted_case: "\<not> False"
    by simp
  note idle_queue = syncNodes_enqueues_affected [OF running deleted idle, THEN conjunct1, THEN mp,
      OF deleted_case, THEN conjunct2, THEN conjunct2, THEN conjunct2]
  note busy_queue = syncNodes_enqueues_affected [OF running deleted busy, THEN conjunct1, THEN mp,
      OF deleted_case, THEN conjunct2, THEN conjunct2, THEN conjunct2]
  from idle_queue have first: "set [''ns/svc-a'', ''ns/svc-c''] = {} \<union> ({''ns/svc-a'', ''ns/svc-c''} - {})"
    by (simp add: run_sync run_cluster)
  from busy_queue have second: "set [''ns/svc-c''] = {} \<union> ({''ns/svc-a'', ''ns/svc-c''} - {''ns/svc-a''})"
    by (simp add: run_sync run_cluster)
  from idle first busy second show ?thesis
    by simp
qed

text \<open>
  The theorem of C9 at the key \<open>ns/web\<close>, which the endpoint store does not hold.
\<close>

theorem syncEndpoints_deleted_unchanged_witness:
  "syncEndpoints utils (twoServices [apiEndpoints]) (StringObj ''ns/web'')
   = Returns (None, twoServices [apiEndpoints])"
proof -
  have "GetByKey (endpointStore (twoServices [apiEndpoints])) ''ns/web'' = (OtherObj, False, None)"
    by (simp add: run_cluster)
  then show ?thesis
    by (rule syncEndpoints_deleted_unchanged)
qed

text \<open>
  The theorem of C10 at a port entry with the number 0, for a symbolic and for a numeric target; and
  what the condition on the helper excludes: a value that is 0 only after truncation
  to 32 bits.
\<close>

theorem zero_port_no_match_witness:
  "epPortEndpoints utils (tcpPort 80 (named ''http'')) (subset [''10.0.0.1''] [])
      \<lparr>EndpointPort_Name = ''http'', EndpointPort_Port = 0\<rparr> = []
   \<and> epPortEndpoints utils (tcpPort 80 (numbered 0)) (subset [''10.0.0.1''] [])
      \<lparr>EndpointPort_Name = ''http'', EndpointPort_Port = 0\<rparr> = []"
proof -
  let ?zero = "\<lparr>EndpointPort_Name = ''http'', EndpointPort_Port = 0\<rparr>"
  have port: "EndpointPort_Port ?zero = 0"
    by simp
  have symbolic: "Type (TargetPort (tcpPort 80 (named ''http''))) = intstr_Int \<longrightarrow>
      int_of_int32 (int32_of_int (fst (GetServicePortTargetPortInt utils (tcpPort 80 (named ''http'')))))
        = fst (GetServicePortTargetPortInt utils (tcpPort 80 (named ''http'')))"
    by (simp add: run_cluster)
  have numeric: "Type (TargetPort (tcpPort 80 (numbered 0))) = intstr_Int \<longrightarrow>
      int_of_int32 (int32_of_int (fst (GetServicePortTargetPortInt utils (tcpPort 80 (numbered 0)))))
        = fst (GetServicePortTargetPortInt utils (tcpPort 80 (numbered 0)))"
    by (simp add: run_cluster int32_of_int_def int_of_int32_def)
  from zero_port_no_match [OF port symbolic] zero_port_no_match [OF port numeric]
  show ?thesis by blast
qed

lemma zero_port_out_of_range:
  "epPortEndpoints (utils\<lparr>GetServicePortTargetPortInt := \<lambda>servicePort. (4294967296, None)\<rparr>)
      (tcpPort 80 (numbered 0)) (subset [''10.0.0.1''] [])
      \<lparr>EndpointPort_Name = ''http'', EndpointPort_Port = 0\<rparr> = [''10.0.0.1:4294967296'']"
  by (simp add: run_controller run_cluster)

end
